theory Spec2Isabelle
  imports Main
begin

section \<open>JavaScript values, errors and the console\<close>

text \<open>
  The values that flow through the notification client: what \<open>JSON.parse\<close> yields
  (null, booleans, numbers, strings, arrays, objects), \<open>undefined\<close> for an absent
  property or a function without \<open>return\<close>, and references to closures.
\<close>

datatype jsval =
    Undefined
  | Null
  | Bool bool
  | Num int
  | Str string
  | Arr "jsval list"
  | Obj "(string \<times> jsval) list"
  | Function nat

datatype js_error =
    TypeError
  | SyntaxError
  | Thrown nat
  | RequestFailed

text \<open>
  A console line: \<open>console.log\<close> or \<open>console.error\<close> with the fixed part of its text.
  The line that announces a reconnect carries its numbers: the delay in milliseconds,
  the attempt and the maximum; the line that announces a dispatch carries the event
  name and the number of listeners.
\<close>

datatype log_entry =
    Log string
  | Error string
  | LogReconnect nat nat nat
  | LogNotify string nat

text \<open>
  Property access \<open>v.k\<close>. Reading a property of \<open>undefined\<close> or \<open>null\<close> throws a
  TypeError; an object yields the stored value or \<open>undefined\<close>. The keys read by the
  client (\<open>type\<close>, \<open>data\<close>, \<open>event_type\<close>, \<open>message\<close>, \<open>issue\<close>, \<open>id\<close>) are not
  properties of any primitive wrapper, array or function, so those yield \<open>undefined\<close>.
\<close>

fun get_prop :: "jsval \<Rightarrow> string \<Rightarrow> js_error + jsval" where
  "get_prop Undefined k = Inl TypeError"
| "get_prop Null k = Inl TypeError"
| "get_prop (Obj kvs) k = Inr (case map_of kvs k of None \<Rightarrow> Undefined | Some v \<Rightarrow> v)"
| "get_prop v k = Inr Undefined"

text \<open>\<open>Array.prototype.indexOf\<close> and \<open>findIndex\<close>: the first position, or -1.\<close>

fun findIndex :: "('a \<Rightarrow> bool) \<Rightarrow> 'a list \<Rightarrow> int" where
  "findIndex p [] = -1"
| "findIndex p (x # xs) =
     (if p x then 0 else (let r = findIndex p xs in if r < 0 then -1 else r + 1))"

definition indexOf :: "'a list \<Rightarrow> 'a \<Rightarrow> int" where
  "indexOf xs x = findIndex (\<lambda>y. y = x) xs"

text \<open>\<open>xs.splice(index, 1)\<close> for an index inside the array.\<close>

definition splice1 :: "nat \<Rightarrow> 'a list \<Rightarrow> 'a list" where
  "splice1 i xs = take i xs @ drop (Suc i) xs"

section \<open>Dashboard: the board-update reducer\<close>

text \<open>
  An issue as the board sees it: its \<open>id\<close> property and the remaining fields (the
  record's extension).
\<close>

record issue =
  issue_id :: string

text \<open>
  The updater that \<open>handleKanbanUpdate\<close> passes to \<open>setIssues\<close>, for the payload
  \<open>{issue, action}\<close> and the previous list.
\<close>

definition handleKanbanUpdate ::
  "'a issue_scheme \<Rightarrow> jsval \<Rightarrow> 'a issue_scheme list \<Rightarrow> 'a issue_scheme list" where
  "handleKanbanUpdate issue action prevIssues =
     (let existingIndex = findIndex (\<lambda>i. issue_id i = issue_id issue) prevIssues in
      if action = Str ''deleted'' then
        filter (\<lambda>i. issue_id i \<noteq> issue_id issue) prevIssues
      else if existingIndex \<ge> 0 then
        map (\<lambda>i. if issue_id i = issue_id issue then issue else i) prevIssues
      else
        issue # prevIssues)"

section \<open>NotificationService: the persisted-notification store\<close>

type_synonym callback = nat

record notification =
  notif_id :: string
  is_read :: bool

text \<open>
  The store: the \<open>Set\<close> of listeners in insertion order, the notifications, the unread
  counter (a JavaScript number, here an integer), and what the outside observes: each
  listener call with the snapshot it received, and the console.
\<close>

record 'a notificationService =
  ns_listeners :: "callback list"
  notifications :: "'a notification_scheme list"
  unreadCount :: int
  ns_invoked :: "(callback \<times> 'a notification_scheme list \<times> int) list"
  ns_console :: "log_entry list"

text \<open>
  \<open>notifyListeners()\<close> of the store: every listener gets the current snapshot inside
  its own try/catch. \<open>ns_throws\<close> says which listeners throw.
\<close>

fun ns_forEach ::
  "(callback \<Rightarrow> bool) \<Rightarrow> callback list \<Rightarrow> 'a notificationService \<Rightarrow> 'a notificationService" where
  "ns_forEach ns_throws [] st = st"
| "ns_forEach ns_throws (cb # cbs) st =
     (let st1 = st\<lparr>ns_invoked := ns_invoked st @ [(cb, notifications st, unreadCount st)]\<rparr>;
          st2 = (if ns_throws cb
                 then st1\<lparr>ns_console := ns_console st1 @ [Error ''Error in notification listener:'']\<rparr>
                 else st1)
      in ns_forEach ns_throws cbs st2)"

definition ns_notifyListeners ::
  "(callback \<Rightarrow> bool) \<Rightarrow> 'a notificationService \<Rightarrow> 'a notificationService" where
  "ns_notifyListeners ns_throws st = ns_forEach ns_throws (ns_listeners st) st"

text \<open>
  \<open>markAsRead(notificationId)\<close>. \<open>response\<close> is the outcome of the awaited
  acknowledgment request (\<open>Inl\<close>: the request rejected). On rejection the error is
  logged and rethrown, and the store is not touched.
\<close>

definition markAsRead ::
  "(callback \<Rightarrow> bool) \<Rightarrow> js_error + jsval \<Rightarrow> string \<Rightarrow> 'a notificationService
     \<Rightarrow> (js_error + unit) \<times> 'a notificationService" where
  "markAsRead ns_throws response notificationId st =
     (case response of
        Inl e \<Rightarrow>
          (Inl e, st\<lparr>ns_console := ns_console st @ [Error ''Error marking notification as read:'']\<rparr>)
      | Inr _ \<Rightarrow>
          (let st1 = st\<lparr>notifications :=
                         map (\<lambda>notif. if notif_id notif = notificationId
                                       then notif\<lparr>is_read := True\<rparr> else notif)
                             (notifications st)\<rparr>;
               st2 = st1\<lparr>unreadCount := max 0 (unreadCount st1 - 1)\<rparr>
           in (Inr (), ns_notifyListeners ns_throws st2)))"

section \<open>WebSocketNotificationService: state\<close>

datatype readyState = CONNECTING | OPEN | CLOSING | CLOSED

text \<open>
  A \<open>WebSocket\<close> object of the browser: the token that \<open>connect\<close> put into its URL
  (the handlers installed on it close over the same token), its ready state and the
  frames sent through it.
\<close>

record socket =
  token :: string
  readyState :: readyState
  sent :: "string list"

text \<open>What a pending \<open>setTimeout\<close> will run.\<close>

datatype timer_action = Reconnect string | CloseNotification nat

text \<open>
  What a listener can do to the service while it runs: the service is a singleton that
  every closure of the application can reach, so a listener may call its public
  methods. (Dispatching from inside a listener is left out.)
\<close>

datatype service_call =
    Call_addEventListener string callback
  | Call_removeEventListener string callback
  | Call_connect string
  | Call_disconnect

text \<open>
  The fields of the service object, followed by the part of the browser it acts on:
  the store of sockets created so far (\<open>this.websocket\<close> is a reference into it), the
  pending timeouts with their delays in milliseconds, the active intervals, the browser
  notifications shown (each with the payload it was built from), the sounds played,
  the listener calls made so far (callback and argument) and the console.
\<close>

record client =
  websocket :: "nat option"
  reconnectAttempts :: nat
  isConnecting :: bool
  heartbeatInterval :: "nat option"
  listeners :: "string \<rightharpoonup> callback list"
  sockets :: "socket list"
  timeouts :: "(nat \<times> timer_action) list"
  intervals :: "nat list"
  next_interval :: nat
  shown :: "jsval list"
  sounds :: nat
  invoked :: "(callback \<times> jsval) list"
  console :: "log_entry list"

text \<open>
  What the client does not decide: what a listener does when it is called (given the
  calls made so far, the callback and its argument): the methods of the service it
  calls, in order, and whether it then throws; \<open>JSON.parse\<close> (\<open>None\<close>: a
  SyntaxError), \<open>Notification.permission === 'granted'\<close>, whether the audio API works,
  and whether the \<open>WebSocket\<close> constructor accepts the URL built from
  \<open>REACT_APP_WS_BASE_URL\<close>.
\<close>

record env =
  does :: "(callback \<times> jsval) list \<Rightarrow> callback \<Rightarrow> jsval \<Rightarrow> service_call list"
  throws :: "(callback \<times> jsval) list \<Rightarrow> callback \<Rightarrow> jsval \<Rightarrow> bool"
  JSON_parse :: "string \<Rightarrow> jsval option"
  permission_granted :: bool
  audio_available :: bool
  ws_url_valid :: bool

text \<open>
  The constructor. \<open>maxReconnectAttempts\<close> and \<open>reconnectDelay\<close> are assigned there and
  nowhere else, so they are constants. Timer ids of a browser are positive.
\<close>

definition maxReconnectAttempts :: nat where
  "maxReconnectAttempts = 5"

definition reconnectDelay :: nat where
  "reconnectDelay = 2000"

definition constructor :: client where
  "constructor =
     \<lparr>websocket = None, reconnectAttempts = 0, isConnecting = False,
      heartbeatInterval = None, listeners = Map.empty, sockets = [], timeouts = [],
      intervals = [], next_interval = 1, shown = [], sounds = 0, invoked = [],
      console = []\<rparr>"

definition log :: "log_entry \<Rightarrow> client \<Rightarrow> client" where
  "log e st = st\<lparr>console := console st @ [e]\<rparr>"

text \<open>\<open>this.websocket && this.websocket.readyState === WebSocket.OPEN\<close>\<close>

definition websocket_open :: "client \<Rightarrow> bool" where
  "websocket_open st =
     (case websocket st of
        None \<Rightarrow> False
      | Some s \<Rightarrow> s < length (sockets st) \<and> readyState (sockets st ! s) = OPEN)"

definition set_readyState :: "nat \<Rightarrow> readyState \<Rightarrow> client \<Rightarrow> client" where
  "set_readyState s r st =
     (if s < length (sockets st)
      then st\<lparr>sockets := (sockets st)[s := (sockets st ! s)\<lparr>readyState := r\<rparr>]\<rparr>
      else st)"

section \<open>Statements that may throw\<close>

type_synonym outcome = "(js_error + unit) \<times> client"

definition seq :: "outcome \<Rightarrow> (client \<Rightarrow> outcome) \<Rightarrow> outcome" where
  "seq r f = (case r of (Inl e, st) \<Rightarrow> (Inl e, st) | (Inr _, st) \<Rightarrow> f st)"

definition try_catch :: "(client \<Rightarrow> outcome) \<Rightarrow> (js_error \<Rightarrow> client \<Rightarrow> outcome) \<Rightarrow> client \<Rightarrow> outcome" where
  "try_catch body handler st =
     (case body st of (Inl e, st') \<Rightarrow> handler e st' | (Inr u, st') \<Rightarrow> (Inr u, st'))"

text \<open>
  \<open>xs.forEach((x, index) => ...)\<close> over an array that the body may change. The
  number of rounds is the length of the array when the loop starts; each round reads
  the array as it is then, calls the body when the index is still inside it and skips
  the round otherwise. An exception leaving the body ends the loop. \<open>array\<close> reads
  the array out of the state, \<open>remaining\<close> counts the rounds left.
\<close>

fun forEach ::
  "(client \<Rightarrow> 'a list) \<Rightarrow> (nat \<Rightarrow> 'a \<Rightarrow> client \<Rightarrow> outcome) \<Rightarrow> nat \<Rightarrow> nat \<Rightarrow> client \<Rightarrow> outcome" where
  "forEach array f 0 index st = (Inr (), st)"
| "forEach array f (Suc remaining) index st =
     seq (if index < length (array st) then f index (array st ! index) st else (Inr (), st))
         (forEach array f remaining (Suc index))"

section \<open>The listener bus: registration\<close>

text \<open>
  The array stored under a name in \<open>this.listeners\<close>, in registration order (empty
  when the name has none). An entry of the map is created once and never replaced or
  deleted, so the array of a name stays the same object and a change to it is seen by
  whoever holds it.
\<close>

definition registered :: "client \<Rightarrow> string \<Rightarrow> callback list" where
  "registered st event = (case listeners st event of None \<Rightarrow> [] | Some callbacks \<Rightarrow> callbacks)"

definition addEventListener :: "string \<Rightarrow> callback \<Rightarrow> client \<Rightarrow> jsval \<times> client" where
  "addEventListener event callback st =
     (let st1 = (if listeners st event = None
                 then st\<lparr>listeners := (listeners st)(event \<mapsto> [])\<rparr> else st)
      in case listeners st1 event of
           None \<Rightarrow> (Undefined, st1)
         | Some callbacks \<Rightarrow>
             (Undefined, st1\<lparr>listeners := (listeners st1)(event \<mapsto> callbacks @ [callback])\<rparr>))"

definition removeEventListener :: "string \<Rightarrow> callback \<Rightarrow> client \<Rightarrow> jsval \<times> client" where
  "removeEventListener event callback st =
     (case listeners st event of
        None \<Rightarrow> (Undefined, st)
      | Some callbacks \<Rightarrow>
          (let index = indexOf callbacks callback in
           if index > -1
           then (Undefined, st\<lparr>listeners := (listeners st)(event \<mapsto> splice1 (nat index) callbacks)\<rparr>)
           else (Undefined, st)))"

section \<open>Connection, heartbeat and reconnection\<close>

definition startHeartbeat :: "client \<Rightarrow> client" where
  "startHeartbeat st =
     st\<lparr>heartbeatInterval := Some (next_interval st),
        intervals := intervals st @ [next_interval st],
        next_interval := Suc (next_interval st)\<rparr>"

definition stopHeartbeat :: "client \<Rightarrow> client" where
  "stopHeartbeat st =
     (case heartbeatInterval st of
        Some h \<Rightarrow> st\<lparr>intervals := removeAll h (intervals st), heartbeatInterval := None\<rparr>
      | None \<Rightarrow> st)"

text \<open>The body of the heartbeat interval.\<close>

definition heartbeat :: "client \<Rightarrow> client" where
  "heartbeat st =
     (case websocket st of
        Some s \<Rightarrow>
          if websocket_open st
          then st\<lparr>sockets := (sockets st)[s := (sockets st ! s)\<lparr>sent := sent (sockets st ! s) @ [''ping'']\<rparr>]\<rparr>
          else st
      | None \<Rightarrow> st)"

definition connect :: "env \<Rightarrow> string \<Rightarrow> client \<Rightarrow> client" where
  "connect E tok st =
     (if isConnecting st \<or> websocket_open st then st
      else
        (let st1 = st\<lparr>isConnecting := True\<rparr> in
         if ws_url_valid E then
           st1\<lparr>websocket := Some (length (sockets st1)),
               sockets := sockets st1 @ [\<lparr>token = tok, readyState = CONNECTING, sent = []\<rparr>]\<rparr>
         else
           (log (Error ''Error connecting to WebSocket:'') st1)\<lparr>isConnecting := False\<rparr>))"

definition scheduleReconnect :: "string \<Rightarrow> client \<Rightarrow> client" where
  "scheduleReconnect tok st =
     (let st1 = st\<lparr>reconnectAttempts := Suc (reconnectAttempts st)\<rparr>;
          delay = reconnectDelay * reconnectAttempts st1;
          st2 = log (LogReconnect delay (reconnectAttempts st1) maxReconnectAttempts) st1
      in st2\<lparr>timeouts := timeouts st2 @ [(delay, Reconnect tok)]\<rparr>)"

definition onopen :: "client \<Rightarrow> client" where
  "onopen st =
     startHeartbeat
       ((log (Log ''WebSocket notification service connected'') st)
          \<lparr>isConnecting := False, reconnectAttempts := 0\<rparr>)"

definition onclose :: "string \<Rightarrow> nat \<Rightarrow> client \<Rightarrow> client" where
  "onclose tok code st =
     (let st1 = stopHeartbeat
                  ((log (Log ''WebSocket notification service disconnected'') st)
                     \<lparr>isConnecting := False\<rparr>)
      in if code \<noteq> 1000 \<and> reconnectAttempts st1 < maxReconnectAttempts
         then scheduleReconnect tok st1 else st1)"

definition onerror :: "client \<Rightarrow> client" where
  "onerror st = (log (Error ''WebSocket error:'') st)\<lparr>isConnecting := False\<rparr>"

text \<open>
  \<open>socket.close(1000, 'Normal closure')\<close>: starts the closing handshake unless the
  socket is closing or closed already.
\<close>

definition ws_close :: "nat \<Rightarrow> client \<Rightarrow> client" where
  "ws_close s st =
     (if s < length (sockets st) \<and>
         (readyState (sockets st ! s) = CONNECTING \<or> readyState (sockets st ! s) = OPEN)
      then set_readyState s CLOSING st else st)"

definition disconnect :: "client \<Rightarrow> client" where
  "disconnect st =
     (let st1 = stopHeartbeat st;
          st2 = (case websocket st1 of
                   Some s \<Rightarrow> (ws_close s st1)\<lparr>websocket := None\<rparr>
                 | None \<Rightarrow> st1)
      in st2\<lparr>reconnectAttempts := maxReconnectAttempts\<rparr>)"

section \<open>The listener bus: dispatch\<close>

fun perform :: "env \<Rightarrow> service_call \<Rightarrow> client \<Rightarrow> client" where
  "perform E (Call_addEventListener event callback) st = snd (addEventListener event callback st)"
| "perform E (Call_removeEventListener event callback) st = snd (removeEventListener event callback st)"
| "perform E (Call_connect tok) st = connect E tok st"
| "perform E Call_disconnect st = disconnect st"

text \<open>
  Calling a listener: the call is recorded, the listener makes its calls to the
  service, and then it returns or throws.
\<close>

definition call_listener :: "env \<Rightarrow> callback \<Rightarrow> jsval \<Rightarrow> client \<Rightarrow> outcome" where
  "call_listener E callback data st =
     (if throws E (invoked st) callback data then Inl (Thrown callback) else Inr (),
      fold (perform E) (does E (invoked st) callback data)
        (st\<lparr>invoked := invoked st @ [(callback, data)]\<rparr>))"

text \<open>
  The arrow function that \<open>notifyListeners\<close> hands to \<open>forEach\<close>: one listener call
  inside its own try/catch.
\<close>

definition listener_round :: "env \<Rightarrow> jsval \<Rightarrow> nat \<Rightarrow> callback \<Rightarrow> client \<Rightarrow> outcome" where
  "listener_round E data index callback =
     try_catch
       (\<lambda>s. call_listener E callback data (log (Log ''WebSocket: Calling listener'') s))
       (\<lambda>error s. (Inr (), log (Error ''Error in listener'') s))"

text \<open>
  \<open>notifyListeners(event, data)\<close>. The loop runs over the array of the name itself,
  not over a copy.
\<close>

definition notifyListeners :: "env \<Rightarrow> string \<Rightarrow> jsval \<Rightarrow> client \<Rightarrow> outcome" where
  "notifyListeners E event data st =
     (let st0 = log (LogNotify event (length (registered st event))) st in
      case listeners st0 event of
        Some callbacks \<Rightarrow>
          forEach (\<lambda>s. registered s event) (listener_round E data) (length callbacks) 0 st0
      | None \<Rightarrow> (Inr (), log (Log ''WebSocket: No listeners registered for event:'') st0))"

section \<open>Incoming frames\<close>

definition playNotificationSound :: "env \<Rightarrow> client \<Rightarrow> client" where
  "playNotificationSound E st =
     (if audio_available E then st\<lparr>sounds := sounds st + 1\<rparr>
      else log (Log ''Could not play notification sound:'') st)"

definition showAssignmentNotification :: "env \<Rightarrow> jsval \<Rightarrow> client \<Rightarrow> outcome" where
  "showAssignmentNotification E data st =
     (if permission_granted E then
        (case get_prop data ''message'' of
           Inl e \<Rightarrow> (Inl e, st)
         | Inr body \<Rightarrow>
        (case get_prop data ''issue'' of
           Inl e \<Rightarrow> (Inl e, st)
         | Inr issue \<Rightarrow>
        (case get_prop issue ''id'' of
           Inl e \<Rightarrow> (Inl e, st)
         | Inr tag \<Rightarrow>
             (Inr (),
              playNotificationSound E
                (st\<lparr>shown := shown st @ [data],
                    timeouts := timeouts st @ [(10000, CloseNotification (length (shown st)))]\<rparr>)))))
      else (Inr (), playNotificationSound E st))"

definition handleMessage :: "env \<Rightarrow> jsval \<Rightarrow> client \<Rightarrow> outcome" where
  "handleMessage E message st =
     (let st0 = log (Log ''WebSocket: Received message:'') st in
      case get_prop message ''type'' of
        Inl e \<Rightarrow> (Inl e, st0)
      | Inr type \<Rightarrow>
     (case get_prop message ''data'' of
        Inl e \<Rightarrow> (Inl e, st0)
      | Inr data \<Rightarrow>
          if type = Str ''notification'' then
            seq (notifyListeners E ''notification'' data
                   (log (Log ''WebSocket: Processing notification:'') st0))
              (\<lambda>st1.
                 case get_prop data ''event_type'' of
                   Inl e \<Rightarrow> (Inl e, st1)
                 | Inr event_type \<Rightarrow>
                     if event_type = Str ''issue_assigned'' then
                       seq (notifyListeners E ''issue_assigned'' data
                              (log (Log ''WebSocket: Dispatching issue_assigned event'') st1))
                           (showAssignmentNotification E data)
                     else if event_type = Str ''kanban_update'' then
                       notifyListeners E ''kanban_update'' data
                         (log (Log ''WebSocket: Dispatching kanban_update event'') st1)
                     else
                       (Inr (), log (Log ''WebSocket: Unknown notification type:'') st1))
          else
            (Inr (), log (Log ''WebSocket: Unknown message type:'') st0)))"

definition onmessage :: "env \<Rightarrow> string \<Rightarrow> client \<Rightarrow> outcome" where
  "onmessage E frame st =
     try_catch
       (\<lambda>s. if frame = ''pong'' then (Inr (), log (Log ''WebSocket: Received pong'') s)
            else (case JSON_parse E frame of
                    None \<Rightarrow> (Inl SyntaxError, s)
                  | Some message \<Rightarrow> handleMessage E message s))
       (\<lambda>error s. (Inr (), log (Error ''Error parsing WebSocket message:'') s))
       st"

section \<open>The browser's event loop\<close>

text \<open>
  What the browser can deliver to the client: the events of a socket, a timeout that
  expires, a tick of an interval, a click on a shown notification. An event of a socket
  first changes the socket's ready state, then runs the handler installed by \<open>connect\<close>.
\<close>

datatype event =
    SocketOpen nat
  | SocketMessage nat string
  | SocketError nat
  | SocketClose nat nat
  | TimeoutFires nat
  | IntervalTick nat
  | NotificationClick nat

fun enabled :: "event \<Rightarrow> client \<Rightarrow> bool" where
  "enabled (SocketOpen s) st =
     (s < length (sockets st) \<and> readyState (sockets st ! s) = CONNECTING)"
| "enabled (SocketMessage s frame) st =
     (s < length (sockets st) \<and>
      (readyState (sockets st ! s) = OPEN \<or> readyState (sockets st ! s) = CLOSING))"
| "enabled (SocketError s) st =
     (s < length (sockets st) \<and> readyState (sockets st ! s) \<noteq> CLOSED)"
| "enabled (SocketClose s code) st =
     (s < length (sockets st) \<and> readyState (sockets st ! s) \<noteq> CLOSED)"
| "enabled (TimeoutFires k) st = (k < length (timeouts st))"
| "enabled (IntervalTick h) st = (h \<in> set (intervals st))"
| "enabled (NotificationClick n) st = (n < length (shown st))"

fun fire :: "env \<Rightarrow> event \<Rightarrow> client \<Rightarrow> client" where
  "fire E (SocketOpen s) st = onopen (set_readyState s OPEN st)"
| "fire E (SocketMessage s frame) st = snd (onmessage E frame st)"
| "fire E (SocketError s) st = onerror st"
| "fire E (SocketClose s code) st =
     onclose (token (sockets st ! s)) code (set_readyState s CLOSED st)"
| "fire E (TimeoutFires k) st =
     (let st1 = st\<lparr>timeouts := splice1 k (timeouts st)\<rparr> in
      case snd (timeouts st ! k) of
        Reconnect tok \<Rightarrow> connect E tok st1
      | CloseNotification n \<Rightarrow> st1)"
| "fire E (IntervalTick h) st = heartbeat st"
| "fire E (NotificationClick n) st = snd (notifyListeners E ''notification_click'' (shown st ! n) st)"



section \<open>Vocabulary of the statements\<close>

text \<open>
  The second state differs from the first in nothing but the recorded listener calls
  and the console: service fields, sockets, timers and notifications are the same.
\<close>

definition observed_only :: "client \<Rightarrow> client \<Rightarrow> bool" where
  "observed_only st st' = (st' = st\<lparr>invoked := invoked st', console := console st'\<rparr>)"

text \<open>\<open>typeof v === 'function'\<close>\<close>

fun is_function :: "jsval \<Rightarrow> bool" where
  "is_function (Function f) = True"
| "is_function v = False"





text \<open>
  Concrete environments for the examples: one where no listener calls the service or
  throws, nothing parses, no permission is granted and sockets can be created; one
  where listener 1 throws; one where listener 1 unregisters itself from
  \<open>kanban_update\<close> when it is called.
\<close>

definition quiet_env :: env where
  "quiet_env =
     \<lparr>does = (\<lambda>calls callback data. []), throws = (\<lambda>calls callback data. False),
      JSON_parse = (\<lambda>frame. None),
      permission_granted = False, audio_available = False, ws_url_valid = True\<rparr>"



text \<open>
  An environment whose parser knows three frames, two messages as \<open>JSON.parse\<close> would
  return them, and a client with listeners under three names.
\<close>

definition sample_env :: env where
  "sample_env =
     quiet_env\<lparr>JSON_parse := map_of [(''{}'', Obj []), (''null'', Null), (''42'', Num 42)]\<rparr>"



definition subscribed_client :: client where
  "subscribed_client =
     constructor\<lparr>listeners :=
       [''notification'' \<mapsto> [1], ''kanban_update'' \<mapsto> [2], ''ISSUE_UPDATED'' \<mapsto> [7]]\<rparr>"

text \<open>
  The states of the reconnecting client: CONNECTING with transport \<open>s\<close> when
  \<open>this.websocket\<close> is the socket \<open>s\<close> and that socket is still connecting;
  CONNECTED with transport \<open>s\<close> when \<open>this.websocket\<close> is the open socket \<open>s\<close>;
  DISCONNECTED when the flag \<open>isConnecting\<close> is clear and the current transport, if
  there is one, is closed.
\<close>

definition connecting :: "client \<Rightarrow> nat \<Rightarrow> bool" where
  "connecting st s =
     (websocket st = Some s \<and> s < length (sockets st) \<and>
      readyState (sockets st ! s) = CONNECTING)"

definition connected :: "client \<Rightarrow> nat \<Rightarrow> bool" where
  "connected st s =
     (websocket st = Some s \<and> s < length (sockets st) \<and> readyState (sockets st ! s) = OPEN)"





text \<open>
  A run from a fresh service in which the transport opens and is then lost, and the
  events that follow when the reconnects fail as well: each timer fires, \<open>connect\<close>
  opens the next socket, and that socket closes with code 1006 before it opens; the
  list ends where the fifth reconnect is under way.
\<close>

definition connection_lost :: client where
  "connection_lost =
     fire quiet_env (SocketClose 0 1006)
       (fire quiet_env (SocketOpen 0) (connect quiet_env ''tok'' constructor))"



text \<open>
  The states of the two runs that the examples start from: the transport just opened,
  and the fifth reconnect under way.
\<close>

definition opened :: client where
  "opened = fire quiet_env (SocketOpen 0) (connect quiet_env ''tok'' constructor)"






section \<open>The board-update reducer: what it yields\<close>

lemma findIndex_nonneg_iff: "findIndex p xs \<ge> 0 \<longleftrightarrow> (\<exists>x \<in> set xs. p x)"
  by (induction xs) (auto simp: Let_def)

lemma findIndex_lower: "-1 \<le> findIndex p xs"
  by (induction xs) (auto simp: Let_def)

lemma map_replace_distinct:
  "distinct (map f xs) \<Longrightarrow> k < length xs \<Longrightarrow> f (xs ! k) = f y \<Longrightarrow>
   map (\<lambda>i. if f i = f y then y else i) xs = xs[k := y]"
proof (induction xs arbitrary: k)
  case Nil
  then show ?case by simp
next
  case (Cons x xs)
  show ?case
  proof (cases k)
    case 0
    with Cons.prems have fx: "f x = f y" and nin: "f y \<notin> f ` set xs" by auto
    from nin have "map (\<lambda>i. if f i = f y then y else i) xs = xs"
      by (intro map_idI) (metis image_eqI)
    with 0 fx show ?thesis by simp
  next
    case (Suc j)
    with Cons.prems have j: "j < length xs" "f (xs ! j) = f y" "distinct (map f xs)" by auto
    from Cons.prems Suc j have "f x \<noteq> f y"
      by (metis distinct.simps(2) image_eqI list.simps(9) nth_mem set_map)
    with Suc Cons.IH[OF j(3) j(1) j(2)] show ?thesis by simp
  qed
qed

lemma map_replace_ids: "map f (map (\<lambda>i. if f i = f y then y else i) xs) = map f xs"
  by (induction xs) auto

text \<open>
  C9. For an issues list with pairwise distinct ids and a payload \<open>{issue, action}\<close>:
  when the action is \<open>'deleted'\<close> the reducer yields the list without the elements
  carrying the issue's id, the others unchanged and in order; otherwise, when an element
  with that id exists, it yields the same list with that element replaced in place
  (so length and order are kept); otherwise it yields the list with the issue put in
  front. In all three cases the ids of the result are pairwise distinct.
\<close>

theorem handleKanbanUpdate_cases:
  assumes "distinct (map issue_id prevIssues)"
  shows "(action = Str ''deleted'' \<longrightarrow>
            handleKanbanUpdate issue action prevIssues
              = filter (\<lambda>i. issue_id i \<noteq> issue_id issue) prevIssues \<and>
            issue_id issue \<notin> issue_id ` set (handleKanbanUpdate issue action prevIssues)) \<and>
         (action \<noteq> Str ''deleted'' \<and> issue_id issue \<in> issue_id ` set prevIssues \<longrightarrow>
            (\<exists>k < length prevIssues. issue_id (prevIssues ! k) = issue_id issue \<and>
               handleKanbanUpdate issue action prevIssues = prevIssues[k := issue])) \<and>
         (action \<noteq> Str ''deleted'' \<and> issue_id issue \<notin> issue_id ` set prevIssues \<longrightarrow>
            handleKanbanUpdate issue action prevIssues = issue # prevIssues) \<and>
         distinct (map issue_id (handleKanbanUpdate issue action prevIssues))"
proof -
  let ?p = "\<lambda>i. issue_id i = issue_id issue"
  have idx: "findIndex ?p prevIssues \<ge> 0 \<longleftrightarrow> issue_id issue \<in> issue_id ` set prevIssues"
    unfolding findIndex_nonneg_iff by (metis imageE image_eqI)
  have del: "action = Str ''deleted'' \<Longrightarrow>
      handleKanbanUpdate issue action prevIssues = filter (\<lambda>i. issue_id i \<noteq> issue_id issue) prevIssues"
    by (simp add: handleKanbanUpdate_def)
  have upd: "action \<noteq> Str ''deleted'' \<Longrightarrow> issue_id issue \<in> issue_id ` set prevIssues \<Longrightarrow>
      handleKanbanUpdate issue action prevIssues
        = map (\<lambda>i. if issue_id i = issue_id issue then issue else i) prevIssues"
    using idx by (simp add: handleKanbanUpdate_def)
  have ins: "action \<noteq> Str ''deleted'' \<Longrightarrow> issue_id issue \<notin> issue_id ` set prevIssues \<Longrightarrow>
      handleKanbanUpdate issue action prevIssues = issue # prevIssues"
    using idx by (simp add: handleKanbanUpdate_def)
  have c1: "action = Str ''deleted'' \<longrightarrow>
            handleKanbanUpdate issue action prevIssues
              = filter (\<lambda>i. issue_id i \<noteq> issue_id issue) prevIssues \<and>
            issue_id issue \<notin> issue_id ` set (handleKanbanUpdate issue action prevIssues)"
    using del by auto
  have c2: "action \<noteq> Str ''deleted'' \<and> issue_id issue \<in> issue_id ` set prevIssues \<longrightarrow>
            (\<exists>k < length prevIssues. issue_id (prevIssues ! k) = issue_id issue \<and>
               handleKanbanUpdate issue action prevIssues = prevIssues[k := issue])"
  proof
    assume h: "action \<noteq> Str ''deleted'' \<and> issue_id issue \<in> issue_id ` set prevIssues"
    then obtain k where k: "k < length prevIssues" "issue_id (prevIssues ! k) = issue_id issue"
      by (metis imageE in_set_conv_nth)
    from map_replace_distinct[OF assms k] upd h
    have "handleKanbanUpdate issue action prevIssues = prevIssues[k := issue]" by simp
    with k show "\<exists>k < length prevIssues. issue_id (prevIssues ! k) = issue_id issue \<and>
               handleKanbanUpdate issue action prevIssues = prevIssues[k := issue]" by blast
  qed
  have c4: "distinct (map issue_id (handleKanbanUpdate issue action prevIssues))"
  proof (cases "action = Str ''deleted''")
    case True
    then show ?thesis using del assms by (simp add: distinct_map_filter)
  next
    case False
    show ?thesis
    proof (cases "issue_id issue \<in> issue_id ` set prevIssues")
      case True
      then show ?thesis using upd[OF False True] assms by (simp only: map_replace_ids)
    next
      case F2: False
      then show ?thesis using ins[OF False F2] assms by simp
    qed
  qed
  from c1 c2 ins c4 show ?thesis by blast
qed

theorem handleKanbanUpdate_cases_witness:
  "distinct (map issue_id [\<lparr>issue_id = ''a'', \<dots> = 1::nat\<rparr>, \<lparr>issue_id = ''b'', \<dots> = 2\<rparr>]) \<and>
   handleKanbanUpdate \<lparr>issue_id = ''b'', \<dots> = 3::nat\<rparr> (Str ''updated'')
       [\<lparr>issue_id = ''a'', \<dots> = 1\<rparr>, \<lparr>issue_id = ''b'', \<dots> = 2\<rparr>]
     = [\<lparr>issue_id = ''a'', \<dots> = 1\<rparr>, \<lparr>issue_id = ''b'', \<dots> = 3\<rparr>] \<and>
   distinct (map issue_id
     (handleKanbanUpdate \<lparr>issue_id = ''b'', \<dots> = 3::nat\<rparr> (Str ''updated'')
        [\<lparr>issue_id = ''a'', \<dots> = 1\<rparr>, \<lparr>issue_id = ''b'', \<dots> = 2\<rparr>]))"
  using handleKanbanUpdate_cases
    [where prevIssues = "[\<lparr>issue_id = ''a'', \<dots> = 1::nat\<rparr>, \<lparr>issue_id = ''b'', \<dots> = 2\<rparr>]"
       and action = "Str ''updated''" and issue = "\<lparr>issue_id = ''b'', \<dots> = 3::nat\<rparr>"]
  by (simp add: handleKanbanUpdate_def)

section \<open>The notification store: acknowledging a notification\<close>

lemma ns_forEach_frame:
  "notifications (ns_forEach ns_throws cbs st) = notifications st \<and>
   unreadCount (ns_forEach ns_throws cbs st) = unreadCount st \<and>
   ns_listeners (ns_forEach ns_throws cbs st) = ns_listeners st"
  by (induction cbs arbitrary: st) (simp_all add: Let_def)

text \<open>
  C10. When the acknowledgment request succeeds, \<open>markAsRead\<close> returns normally, sets
  \<open>is_read\<close> on exactly the notifications whose id is the given one, leaves every
  other notification, the length and the order of the list as they were, and lowers
  \<open>unreadCount\<close> by one, clamped at zero (a counter at zero stays zero).
\<close>

theorem markAsRead_success:
  "markAsRead ns_throws (Inr r) notificationId st = (res, st') \<Longrightarrow>
     res = Inr () \<and>
     length (notifications st') = length (notifications st) \<and>
     (\<forall>k < length (notifications st).
        (notif_id (notifications st ! k) = notificationId \<longrightarrow>
           notifications st' ! k = (notifications st ! k)\<lparr>is_read := True\<rparr>) \<and>
        (notif_id (notifications st ! k) \<noteq> notificationId \<longrightarrow>
           notifications st' ! k = notifications st ! k)) \<and>
     map notif_id (notifications st') = map notif_id (notifications st) \<and>
     unreadCount st' = (if unreadCount st \<ge> 1 then unreadCount st - 1 else 0) \<and>
     0 \<le> unreadCount st'"
  by (auto simp: markAsRead_def Let_def ns_notifyListeners_def ns_forEach_frame o_def)

theorem markAsRead_success_witness:
  "notifications (snd (markAsRead (\<lambda>_. False) (Inr Null) ''n2''
      \<lparr>ns_listeners = [7],
       notifications = [\<lparr>notif_id = ''n1'', is_read = False\<rparr>, \<lparr>notif_id = ''n2'', is_read = False\<rparr>],
       unreadCount = 0, ns_invoked = [], ns_console = []\<rparr>))
     = [\<lparr>notif_id = ''n1'', is_read = False\<rparr>, \<lparr>notif_id = ''n2'', is_read = True\<rparr>] \<and>
   unreadCount (snd (markAsRead (\<lambda>_. False) (Inr Null) ''n2''
      \<lparr>ns_listeners = [7],
       notifications = [\<lparr>notif_id = ''n1'', is_read = False\<rparr>, \<lparr>notif_id = ''n2'', is_read = False\<rparr>],
       unreadCount = 0, ns_invoked = [], ns_console = []\<rparr>)) = 0"
  using markAsRead_success
    [where ns_throws = "\<lambda>_. False" and r = Null and notificationId = "''n2''"
       and st = "\<lparr>ns_listeners = [7],
                  notifications = [\<lparr>notif_id = ''n1'', is_read = False\<rparr>, \<lparr>notif_id = ''n2'', is_read = False\<rparr>],
                  unreadCount = 0, ns_invoked = [], ns_console = []\<rparr>",
     OF prod.collapse [symmetric]]
  by (simp add: markAsRead_def ns_notifyListeners_def Let_def)

section \<open>Registration: what it changes\<close>



lemma observed_only_log: "observed_only st (log e st)"
  by (simp add: observed_only_def log_def)


lemma invoked_log: "invoked (log e st) = invoked st"
  by (simp add: log_def)


lemma console_log: "console (log e st) = console st @ [e]"
  by (simp add: log_def)


lemma addEventListener_eq:
  "addEventListener event callback st =
     (Undefined, st\<lparr>listeners := (listeners st)(event \<mapsto> registered st event @ [callback])\<rparr>)"
  by (cases "listeners st event") (simp_all add: addEventListener_def registered_def Let_def)

lemma findIndex_absent: "(\<forall>x \<in> set xs. \<not> p x) \<Longrightarrow> findIndex p xs = -1"
  by (induction xs) (auto simp: Let_def)

lemma findIndex_splice:
  "\<exists>x \<in> set xs. x = c \<Longrightarrow>
   0 \<le> findIndex (\<lambda>y. y = c) xs \<and>
   splice1 (nat (findIndex (\<lambda>y. y = c) xs)) xs = remove1 c xs"
proof (induction xs)
  case Nil
  then show ?case by simp
next
  case (Cons x xs)
  show ?case
  proof (cases "x = c")
    case True
    then show ?thesis by (simp add: splice1_def)
  next
    case False
    with Cons.prems have "\<exists>x \<in> set xs. x = c" by auto
    from Cons.IH[OF this] False show ?thesis
      by (auto simp: Let_def splice1_def nat_add_distrib)
  qed
qed

lemma removeEventListener_eq:
  "removeEventListener event callback st =
     (Undefined,
      if callback \<in> set (registered st event)
      then st\<lparr>listeners := (listeners st)(event \<mapsto> remove1 callback (registered st event))\<rparr>
      else st)"
proof (cases "listeners st event")
  case None
  then show ?thesis by (simp add: removeEventListener_def registered_def)
next
  case (Some cbs)
  show ?thesis
  proof (cases "callback \<in> set cbs")
    case True
    then have "\<exists>x \<in> set cbs. x = callback" by simp
    from findIndex_splice[OF this] Some True show ?thesis
      by (simp add: removeEventListener_def registered_def indexOf_def Let_def)
  next
    case False
    then have "findIndex (\<lambda>y. y = callback) cbs = -1" by (intro findIndex_absent) auto
    with Some False show ?thesis
      by (simp add: removeEventListener_def registered_def indexOf_def Let_def)
  qed
qed

lemma registered_add_same:
  "registered (snd (addEventListener event callback st)) event = registered st event @ [callback]"
  by (simp add: addEventListener_eq registered_def)

lemma registered_add_other:
  "event' \<noteq> event \<Longrightarrow>
   registered (snd (addEventListener event callback st)) event' = registered st event'"
  by (simp add: addEventListener_eq registered_def)

text \<open>
  C7, as stated, fails: \<open>addEventListener\<close> has no \<open>return\<close>, so what the caller gets
  is \<open>undefined\<close>, not a function that could unsubscribe.
\<close>

theorem addEventListener_handle_counterexample:
  "fst (addEventListener ''kanban_update'' 1 constructor) = Undefined \<and>
   \<not> is_function (fst (addEventListener ''kanban_update'' 1 constructor))"
  by (simp add: addEventListener_eq)

text \<open>
  C7, amended. \<open>addEventListener\<close> appends the callback at the end of the list for the
  name (starting the list when the name is new), touches nothing else of the client and
  returns \<open>undefined\<close>. The registration is undone through
  \<open>removeEventListener(event, callback)\<close>, which deletes the first occurrence of the
  callback in the list; when the callback was not registered before, that restores the
  list as it was.
\<close>

theorem addEventListener_appends:
  "fst (addEventListener event callback st) = Undefined \<and>
   snd (addEventListener event callback st)
     = st\<lparr>listeners := (listeners st)(event \<mapsto> registered st event @ [callback])\<rparr> \<and>
   registered (snd (addEventListener event callback st)) event = registered st event @ [callback] \<and>
   (\<forall>event'. event' \<noteq> event \<longrightarrow>
      registered (snd (addEventListener event callback st)) event' = registered st event') \<and>
   registered (snd (removeEventListener event callback (snd (addEventListener event callback st)))) event
     = remove1 callback (registered st event @ [callback]) \<and>
   (callback \<notin> set (registered st event) \<longrightarrow>
      registered (snd (removeEventListener event callback (snd (addEventListener event callback st)))) event
        = registered st event)"
proof -
  let ?s1 = "snd (addEventListener event callback st)"
  have a: "registered ?s1 event = registered st event @ [callback]"
    by (rule registered_add_same)
  have r: "registered (snd (removeEventListener event callback ?s1)) event
             = remove1 callback (registered st event @ [callback])"
    by (simp add: removeEventListener_eq a) (simp add: registered_def)
  have r': "callback \<notin> set (registered st event) \<longrightarrow>
      registered (snd (removeEventListener event callback ?s1)) event = registered st event"
    using r by (simp add: remove1_append)
  have u: "fst (addEventListener event callback st) = Undefined"
    by (simp add: addEventListener_eq)
  have e: "?s1 = st\<lparr>listeners := (listeners st)(event \<mapsto> registered st event @ [callback])\<rparr>"
    by (simp add: addEventListener_eq)
  have oth: "\<forall>event'. event' \<noteq> event \<longrightarrow> registered ?s1 event' = registered st event'"
    by (simp add: registered_add_other)
  from u e a oth r r' show ?thesis by blast
qed

theorem addEventListener_appends_witness:
  "registered (snd (addEventListener ''kanban_update'' 2
      (constructor\<lparr>listeners := [''kanban_update'' \<mapsto> [1]]\<rparr>))) ''kanban_update'' = [1, 2] \<and>
   registered (snd (removeEventListener ''kanban_update'' 2 (snd (addEventListener ''kanban_update'' 2
      (constructor\<lparr>listeners := [''kanban_update'' \<mapsto> [1]]\<rparr>))))) ''kanban_update'' = [1]"
  using addEventListener_appends
    [of "''kanban_update''" 2 "constructor\<lparr>listeners := [''kanban_update'' \<mapsto> [1]]\<rparr>"]
  by (simp add: registered_def constructor_def addEventListener_eq removeEventListener_eq)

section \<open>Dispatch: who is called\<close>

lemma stopHeartbeat_fields:
  "websocket (stopHeartbeat st) = websocket st"
  "reconnectAttempts (stopHeartbeat st) = reconnectAttempts st"
  "isConnecting (stopHeartbeat st) = isConnecting st"
  "sockets (stopHeartbeat st) = sockets st"
  "timeouts (stopHeartbeat st) = timeouts st"
  "listeners (stopHeartbeat st) = listeners st"
  "invoked (stopHeartbeat st) = invoked st"
  "console (stopHeartbeat st) = console st"
  by (simp_all add: stopHeartbeat_def split: option.splits)

lemma set_readyState_fields:
  "websocket (set_readyState s r st) = websocket st"
  "reconnectAttempts (set_readyState s r st) = reconnectAttempts st"
  "timeouts (set_readyState s r st) = timeouts st"
  "isConnecting (set_readyState s r st) = isConnecting st"
  "length (sockets (set_readyState s r st)) = length (sockets st)"
  "listeners (set_readyState s r st) = listeners st"
  "invoked (set_readyState s r st) = invoked st"
  "console (set_readyState s r st) = console st"
  by (simp_all add: set_readyState_def)


























section \<open>Registration: the same callback twice\<close>




section \<open>Incoming frames: what is dispatched\<close>














text \<open>
  C5. A frame equal to \<open>pong\<close> is consumed as the heartbeat acknowledgment, and a frame
  that \<open>JSON.parse\<close> rejects is logged as an error and dropped: in both cases the handler
  returns normally, no listener is called, and nothing of the client changes besides
  the console line, so the socket stays as it was.
\<close>

theorem onmessage_pong_or_malformed:
  "frame = ''pong'' \<or> JSON_parse E frame = None \<Longrightarrow>
   fst (onmessage E frame st) = Inr () \<and>
   invoked (snd (onmessage E frame st)) = invoked st \<and>
   observed_only st (snd (onmessage E frame st)) \<and>
   console (snd (onmessage E frame st)) =
     console st @ [if frame = ''pong'' then Log ''WebSocket: Received pong''
                   else Error ''Error parsing WebSocket message:'']"
  by (auto simp: onmessage_def try_catch_def invoked_log console_log observed_only_log)

theorem onmessage_pong_or_malformed_witness:
  "JSON_parse sample_env ''{not json'' = None \<and>
   JSON_parse sample_env ''{}'' = Some (Obj []) \<and>
   fst (onmessage sample_env ''{not json'' subscribed_client) = Inr () \<and>
   invoked (snd (onmessage sample_env ''{not json'' subscribed_client)) = [] \<and>
   invoked (snd (onmessage sample_env ''pong'' subscribed_client)) = []"
proof -
  have p: "JSON_parse sample_env ''{not json'' = None"
    by (simp add: sample_env_def)
  have q: "JSON_parse sample_env ''{}'' = Some (Obj [])"
    by (simp add: sample_env_def)
  have i: "invoked subscribed_client = []"
    by (simp add: subscribed_client_def constructor_def)
  have a: "fst (onmessage sample_env ''{not json'' subscribed_client) = Inr () \<and>
           invoked (snd (onmessage sample_env ''{not json'' subscribed_client)) = []"
    using onmessage_pong_or_malformed[of "''{not json''" sample_env subscribed_client] p i
    by simp
  have b: "invoked (snd (onmessage sample_env ''pong'' subscribed_client)) = []"
    using onmessage_pong_or_malformed[of "''pong''" sample_env subscribed_client] i
    by simp
  from p q a b show ?thesis by blast
qed

section \<open>Connection and reconnection\<close>













lemma connected_close_enabled:
  "connected st s \<Longrightarrow> websocket st = Some s \<and> enabled (SocketClose s code) st"
  by (simp add: connected_def)

lemma opened_state:
  "opened =
     \<lparr>websocket = Some 0, reconnectAttempts = 0, isConnecting = False,
      heartbeatInterval = Some 1, listeners = Map.empty,
      sockets = [\<lparr>token = ''tok'', readyState = OPEN, sent = []\<rparr>],
      timeouts = [], intervals = [1], next_interval = 2, shown = [], sounds = 0,
      invoked = [], console = [Log ''WebSocket notification service connected'']\<rparr>"
  by (simp add: opened_def quiet_env_def constructor_def connect_def websocket_open_def
        set_readyState_def onopen_def startHeartbeat_def log_def)

lemma connection_lost_state:
  "connection_lost =
     \<lparr>websocket = Some 0, reconnectAttempts = 1, isConnecting = False,
      heartbeatInterval = None, listeners = Map.empty,
      sockets = [\<lparr>token = ''tok'', readyState = CLOSED, sent = []\<rparr>],
      timeouts = [(2000, Reconnect ''tok'')],
      intervals = [], next_interval = 2, shown = [], sounds = 0, invoked = [],
      console = [Log ''WebSocket notification service connected'',
                 Log ''WebSocket notification service disconnected'',
                 LogReconnect 2000 1 5]\<rparr>"
proof -
  have "connection_lost = fire quiet_env (SocketClose 0 1006) opened"
    by (simp only: connection_lost_def opened_def)
  then show ?thesis
    unfolding opened_state
    by (simp add: set_readyState_def onclose_def scheduleReconnect_def stopHeartbeat_def
          log_def Let_def maxReconnectAttempts_def reconnectDelay_def)
qed










text \<open>
  C2 does not hold of the code: \<open>disconnect()\<close> never removes a pending timeout.
  After a lost connection has scheduled its reconnect, \<open>disconnect()\<close> sets the
  counter to the maximum but leaves the timer pending; when
  the timer fires, \<open>connect\<close> finds no connection attempt in progress and no open socket,
  so it opens a second socket and the client is connecting again; once that socket
  opens, the client is connected.
\<close>

theorem disconnect_ghost_reconnect:
  "timeouts (disconnect st) = timeouts st \<and>
   timeouts connection_lost = [(2000, Reconnect ''tok'')] \<and>
   timeouts (disconnect connection_lost) = [(2000, Reconnect ''tok'')] \<and>
   reconnectAttempts (disconnect connection_lost) = 5 \<and>
   map readyState (sockets (disconnect connection_lost)) = [CLOSED] \<and>
   isConnecting (fire quiet_env (TimeoutFires 0) (disconnect connection_lost)) \<and>
   websocket (fire quiet_env (TimeoutFires 0) (disconnect connection_lost)) = Some 1 \<and>
   map readyState (sockets (fire quiet_env (TimeoutFires 0) (disconnect connection_lost)))
     = [CLOSED, CONNECTING] \<and>
   connected (fire quiet_env (SocketOpen 1)
                (fire quiet_env (TimeoutFires 0) (disconnect connection_lost))) 1"
proof -
  have g: "timeouts (disconnect st) = timeouts st"
    by (simp add: disconnect_def Let_def ws_close_def stopHeartbeat_fields
          set_readyState_fields split: option.splits)
  have c: "timeouts connection_lost = [(2000, Reconnect ''tok'')] \<and>
   timeouts (disconnect connection_lost) = [(2000, Reconnect ''tok'')] \<and>
   reconnectAttempts (disconnect connection_lost) = 5 \<and>
   map readyState (sockets (disconnect connection_lost)) = [CLOSED] \<and>
   isConnecting (fire quiet_env (TimeoutFires 0) (disconnect connection_lost)) \<and>
   websocket (fire quiet_env (TimeoutFires 0) (disconnect connection_lost)) = Some 1 \<and>
   map readyState (sockets (fire quiet_env (TimeoutFires 0) (disconnect connection_lost)))
     = [CLOSED, CONNECTING] \<and>
   connected (fire quiet_env (SocketOpen 1)
                (fire quiet_env (TimeoutFires 0) (disconnect connection_lost))) 1"
    unfolding connection_lost_state
    by (simp add: disconnect_def stopHeartbeat_def ws_close_def set_readyState_def
          maxReconnectAttempts_def quiet_env_def connect_def websocket_open_def splice1_def
          Let_def onopen_def startHeartbeat_def log_def connected_def)
  from g c show ?thesis by blast
qed




end
